theory Spec2Isabelle
  imports Complex_Main "HOL-Library.Char_ord" "HOL-Library.List_Lexorder"
begin

section \<open>WebGIS Populasi: the data model of app.py\<close>

text \<open>
  The application reads a CSV of populated places once, and answers every request by
  filtering that table, placing one marker per plotted row on a map and handing the map
  and a row count to a template.

  Conventions of the embedding.
  \<^item> A numeric cell is a rational number; a missing value (pandas NaN) is \<open>None\<close>.
    Rounding and the infinities of binary floating point are outside the model.
  \<^item> Strings are lists of 8-bit characters; letter case is ASCII letter case.
  \<^item> An exception is a value \<open>Inl e\<close> of a sum type.
  \<^item> What the libraries compute and the repository only calls (the regular-expression
    compiler behind \<open>str.contains\<close>, the cell parser behind \<open>pd.to_numeric\<close>, the
    built-in \<open>int\<close>) is a parameter of the functions that call it.
\<close>

datatype error = ValueError | KeyError | ReError | OverflowError | NotModelled

record row =
  nama :: "string option"
  lat :: "rat option"
  lon :: "rat option"
  populasi :: "rat option"

type_synonym table = "row list"

subsection \<open>Strings: case, whitespace, the text of a value\<close>

definition ascii_lower :: "char \<Rightarrow> char" where
  "ascii_lower c =
     (let n = (of_char c :: nat) in if 65 \<le> n \<and> n \<le> 90 then char_of (n + 32) else c)"

text \<open>\<open>str.lower()\<close> and \<open>str.casefold()\<close>, which agree on ASCII text.\<close>

definition str_lower :: "string \<Rightarrow> string" where
  "str_lower s = map ascii_lower s"

definition casefold :: "string \<Rightarrow> string" where
  "casefold s = map ascii_lower s"

text \<open>
  \<open>astype(str)\<close> on a column of texts and missing values, and \<open>str(x)\<close> inside an
  f-string: a text is itself, a missing value (a float NaN) is written \<open>nan\<close>.
\<close>

definition astype_str :: "string option \<Rightarrow> string" where
  "astype_str v = (case v of None \<Rightarrow> ''nan'' | Some s \<Rightarrow> s)"

text \<open>
  The characters \<open>int\<close> skips around a number: the white space of C (codes 9 to 13
  and 32) and, of the characters from 128 on, those that are white space in Unicode
  (codes 133 and 160). The separators 28 to 31, which \<open>str.strip\<close> removes, are not
  among them.
\<close>

definition is_space :: "char \<Rightarrow> bool" where
  "is_space c =
     (let n = (of_char c :: nat) in (9 \<le> n \<and> n \<le> 13) \<or> n = 32 \<or> n = 133 \<or> n = 160)"

definition is_digit :: "char \<Rightarrow> bool" where
  "is_digit c = (let n = (of_char c :: nat) in 48 \<le> n \<and> n \<le> 57)"

definition digit_val :: "char \<Rightarrow> nat" where
  "digit_val c = of_char c - 48"

definition strip :: "string \<Rightarrow> string" where
  "strip s = rev (dropWhile is_space (rev (dropWhile is_space s)))"

subsection \<open>Python's \<open>int(text)\<close>\<close>

text \<open>
  \<open>py_int\<close> is \<open>int(text)\<close> on texts of characters below 256, with the interpreter's
  default limit on the number of digits: white space around the number is skipped, then
  come an optional sign and decimal digits, where a single underscore may stand between
  two digits; more than 4300 digits are refused. Anything refused raises ValueError,
  which is \<open>None\<close> here. It stands for \<open>int\<close> in the examples; the functions below
  take the parser as a parameter.
\<close>

definition max_str_digits :: nat where
  "max_str_digits = 4300"

fun py_digits :: "string \<Rightarrow> nat \<Rightarrow> nat option" where
  "py_digits [] acc = Some acc"
| "py_digits (c # cs) acc =
     (if is_digit c then py_digits cs (acc * 10 + digit_val c)
      else if c = CHR ''_'' then
        (case cs of
           [] \<Rightarrow> None
         | d # ds \<Rightarrow> if is_digit d then py_digits cs acc else None)
      else None)"

definition py_unsigned :: "string \<Rightarrow> nat option" where
  "py_unsigned t =
     (case t of
        [] \<Rightarrow> None
      | d # ds \<Rightarrow>
          if is_digit d \<and> length (filter is_digit t) \<le> max_str_digits
          then py_digits t 0 else None)"

definition py_int :: "string \<Rightarrow> int option" where
  "py_int s =
     (case strip s of
        [] \<Rightarrow> None
      | c # cs \<Rightarrow>
          if c = CHR ''-'' then map_option (\<lambda>n. - int n) (py_unsigned cs)
          else if c = CHR ''+'' then map_option int (py_unsigned cs)
          else map_option int (py_unsigned (c # cs)))"

subsection \<open>Loading the table (app.py, lines 25 to 38)\<close>

text \<open>
  What \<open>pd.read_csv\<close> hands over: the header and, per line, the text of each cell by
  column name (\<open>None\<close> for an empty cell).
\<close>

record csv =
  columns :: "string list"
  lines :: "(string \<rightharpoonup> string) list"

record globals =
  df :: table
  NAMES :: "string list"

definition required :: "string list" where
  "required = [''nama'', ''lat'', ''lon'', ''populasi'']"

text \<open>\<open>required - set(df.columns.str.lower())\<close>\<close>

definition missing :: "string list \<Rightarrow> string list" where
  "missing cols = filter (\<lambda>c. c \<notin> set (map str_lower cols)) required"

text \<open>
  \<open>pd.to_numeric(column, errors="coerce")\<close>, cell by cell: \<open>parse\<close> is the library's
  reading of a text as a number, \<open>None\<close> where it cannot; that answer becomes the
  missing value instead of an exception.
\<close>

definition to_numeric :: "(string \<Rightarrow> rat option) \<Rightarrow> string option \<Rightarrow> rat option" where
  "to_numeric parse cell = (case cell of None \<Rightarrow> None | Some s \<Rightarrow> parse s)"

definition coerce_row :: "(string \<Rightarrow> rat option) \<Rightarrow> (string \<rightharpoonup> string) \<Rightarrow> row" where
  "coerce_row parse cells =
     \<lparr>nama = cells ''nama'',
      lat = to_numeric parse (cells ''lat''),
      lon = to_numeric parse (cells ''lon''),
      populasi = to_numeric parse (cells ''populasi'')\<rparr>"

text \<open>\<open>sorted(df["nama"].dropna().astype(str).unique().tolist())\<close>\<close>

definition dropdown_names :: "table \<Rightarrow> string list" where
  "dropdown_names t = sort (remdups (List.map_filter nama t))"

text \<open>
  The module body. The check of line 28 compares lower-cased column names, while
  \<open>df["lat"]\<close> and the other three subscripts need the exact name and raise KeyError
  without it.
\<close>

definition load :: "(string \<Rightarrow> rat option) \<Rightarrow> csv \<Rightarrow> error + globals" where
  "load parse f =
     (if missing (columns f) \<noteq> [] then Inl ValueError
      else if ''lat'' \<notin> set (columns f) then Inl KeyError
      else if ''lon'' \<notin> set (columns f) then Inl KeyError
      else if ''populasi'' \<notin> set (columns f) then Inl KeyError
      else if ''nama'' \<notin> set (columns f) then Inl KeyError
      else
        (let t = map (coerce_row parse) (lines f)
         in Inr \<lparr>df = t, NAMES = dropdown_names t\<rparr>))"

subsection \<open>The request\<close>

datatype http_method = GET | POST

text \<open>The route accepts both methods and reads only the submitted form.\<close>

record request =
  meth :: http_method
  form :: "string \<rightharpoonup> string"

text \<open>\<open>request.form.get(key, default)\<close>\<close>

definition form_get :: "(string \<rightharpoonup> string) \<Rightarrow> string \<Rightarrow> string \<Rightarrow> string" where
  "form_get f k d = (case f k of None \<Rightarrow> d | Some v \<Rightarrow> v)"

subsection \<open>The three filters (app.py, lines 172 to 183)\<close>

text \<open>
  The built-in \<open>int\<close> on a text: the integer, or \<open>None\<close> for the ValueError it
  raises.
\<close>

type_synonym int_parser = "string \<Rightarrow> int option"

text \<open>
  The mask \<open>dff["populasi"] >= min_pop\<close>: a comparison with a missing value is false.
\<close>

definition ge_mask :: "rat option \<Rightarrow> int \<Rightarrow> bool" where
  "ge_mask v n = (case v of None \<Rightarrow> False | Some p \<Rightarrow> of_int n \<le> p)"

text \<open>
  The comparison turns the integer into a float first, and that conversion raises
  OverflowError for an integer whose nearest float is beyond the largest one: from
  \<open>2 ^ 1024 - 2 ^ 970\<close> on, in absolute value.
\<close>

definition fits_float :: "int \<Rightarrow> bool" where
  "fits_float n = (\<bar>n\<bar> < 2 ^ 1024 - 2 ^ 970)"

text \<open>
  Lines 172 to 177: the ValueError of \<open>int\<close> is caught and the table is left as it was;
  the OverflowError of the comparison is not a ValueError and leaves the handler.
\<close>

definition filter_min_pop :: "int_parser \<Rightarrow> string \<Rightarrow> table \<Rightarrow> error + table" where
  "filter_min_pop int_of min_pop_str dff =
     (if min_pop_str \<noteq> [] then
        (case int_of min_pop_str of
           Some n \<Rightarrow>
             if fits_float n then Inr (filter (\<lambda>r. ge_mask (populasi r) n) dff)
             else Inl OverflowError
         | None \<Rightarrow> Inr dff)
      else Inr dff)"

text \<open>
  \<open>str.contains(keyword, case=False, na=False)\<close> leaves \<open>regex\<close> at its default, true:
  pandas compiles the keyword as a regular expression with the flag IGNORECASE, once,
  before it looks at any row, and keeps the rows the compiled pattern finds a match in.
  The compiler is the parameter: for a pattern it answers the exception it raises, or the
  search predicate of the compiled pattern.
\<close>

type_synonym regex_engine = "string \<Rightarrow> error + (string \<Rightarrow> bool)"

text \<open>Lines 179 and 180. The column went through \<open>astype(str)\<close> before the search.\<close>

definition filter_keyword :: "regex_engine \<Rightarrow> string \<Rightarrow> table \<Rightarrow> error + table" where
  "filter_keyword re_compile kw dff =
     (if kw \<noteq> [] then
        (case re_compile kw of
           Inl e \<Rightarrow> Inl e
         | Inr found \<Rightarrow> Inr (filter (\<lambda>r. found (astype_str (nama r))) dff))
      else Inr dff)"

text \<open>Lines 182 and 183: both sides are case-folded before they are compared.\<close>

definition filter_name :: "string \<Rightarrow> table \<Rightarrow> table" where
  "filter_name sel dff =
     (if sel \<noteq> [] then filter (\<lambda>r. casefold (astype_str (nama r)) = casefold sel) dff
      else dff)"

text \<open>Lines 170 to 183: the table handed to \<open>build_map\<close>.\<close>

definition home_filters ::
  "regex_engine \<Rightarrow> int_parser \<Rightarrow> table \<Rightarrow> request \<Rightarrow> error + table" where
  "home_filters re_compile int_of t req =
     (let min_pop_str = form_get (form req) ''min_pop'' '''';
          kw = form_get (form req) ''keyword'' '''';
          sel = form_get (form req) ''name'' ''''
      in case filter_min_pop int_of min_pop_str t of
           Inl e \<Rightarrow> Inl e
         | Inr dff \<Rightarrow>
             (case filter_keyword re_compile kw dff of
                Inl e \<Rightarrow> Inl e
              | Inr dff' \<Rightarrow> Inr (filter_name sel dff')))"

subsection \<open>Building the map (app.py, lines 129 to 159)\<close>

text \<open>
  What the mapping library draws is kept as data: the centre, the base layers by name,
  the controls added, and the markers of the cluster in the order they were added.
\<close>

record marker =
  location :: "rat \<times> rat"
  popup :: string
  tooltip :: string

record folium_map =
  center :: "rat \<times> rat"
  zoom_start :: nat
  base_layers :: "string list"
  controls :: "string list"
  markers :: "marker list"

text \<open>
  The library refuses a location with a missing coordinate: \<open>folium.Map\<close> and
  \<open>folium.Marker\<close> both validate it and raise ValueError.
\<close>

definition validate_location :: "rat option \<times> rat option \<Rightarrow> error + rat \<times> rat" where
  "validate_location loc =
     (case loc of
        (Some a, Some b) \<Rightarrow> Inr (a, b)
      | _ \<Rightarrow> Inl ValueError)"

text \<open>\<open>Series.notna().any()\<close> and \<open>Series.mean()\<close>, which skips missing values.\<close>

definition notna_any :: "rat option list \<Rightarrow> bool" where
  "notna_any xs = list_ex (\<lambda>v. v \<noteq> None) xs"

definition series_mean :: "rat option list \<Rightarrow> rat option" where
  "series_mean xs =
     (let ys = List.map_filter id xs
      in if ys = [] then None else Some (sum_list ys / of_nat (length ys)))"

text \<open>Lines 131 to 134.\<close>

definition map_center :: "table \<Rightarrow> rat option \<times> rat option" where
  "map_center dframe =
     (if length dframe > 0 \<and> notna_any (map lat dframe) \<and> notna_any (map lon dframe)
      then (series_mean (map lat dframe), series_mean (map lon dframe))
      else (Some (- 13 / 2), Some 107))"

text \<open>
  \<open>add_base_layers\<close>: six tile layers, by the name each is registered under. The
  layer a new map comes with is not listed.
\<close>

definition add_base_layers :: "folium_map \<Rightarrow> folium_map" where
  "add_base_layers m =
     m\<lparr>base_layers := base_layers m @
        [''OpenStreetMap'', ''CartoDB Positron'', ''CartoDB Dark'', ''OpenTopoMap'',
         ''ESRI World Imagery'', ''ESRI World Topo'']\<rparr>"

definition add_control :: "string \<Rightarrow> folium_map \<Rightarrow> folium_map" where
  "add_control c m = m\<lparr>controls := controls m @ [c]\<rparr>"

text \<open>\<open>int(x)\<close> of a number truncates towards zero; \<open>f"{n:,}"\<close> groups the digits by three.\<close>

definition py_trunc :: "rat \<Rightarrow> int" where
  "py_trunc p = (if 0 \<le> p then \<lfloor>p\<rfloor> else \<lceil>p\<rceil>)"

function dec_digits :: "nat \<Rightarrow> string" where
  "dec_digits n =
     (if n < 10 then [char_of (48 + n)]
      else dec_digits (n div 10) @ [char_of (48 + n mod 10)])"
  by pat_completeness auto
termination
  by (relation "measure id") auto

fun group3 :: "string \<Rightarrow> string" where
  "group3 (a # b # c # d # rest) = a # b # c # CHR '','' # group3 (d # rest)"
| "group3 ds = ds"

definition fmt_thousands :: "int \<Rightarrow> string" where
  "fmt_thousands n =
     (if n < 0 then CHR ''-'' # rev (group3 (rev (dec_digits (nat (- n)))))
      else rev (group3 (rev (dec_digits (nat n)))))"

text \<open>Lines 145 to 148.\<close>

definition popup_text :: "row \<Rightarrow> string" where
  "popup_text r =
     (case populasi r of
        Some p \<Rightarrow> astype_str (nama r) @ ''<br>Populasi: '' @ fmt_thousands (py_trunc p)
      | None \<Rightarrow> astype_str (nama r))"

text \<open>\<open>dframe.dropna(subset=["lat", "lon"])\<close>\<close>

definition dropna_lat_lon :: "table \<Rightarrow> table" where
  "dropna_lat_lon dframe = filter (\<lambda>r. lat r \<noteq> None \<and> lon r \<noteq> None) dframe"

text \<open>
  The loop of lines 144 to 154 over the rows it is given, with the cluster and the
  counter as they stand.
\<close>

fun place_markers :: "row list \<Rightarrow> marker list \<Rightarrow> nat \<Rightarrow> error + marker list \<times> nat" where
  "place_markers [] cluster count = Inr (cluster, count)"
| "place_markers (r # rest) cluster count =
     (case validate_location (lat r, lon r) of
        Inl e \<Rightarrow> Inl e
      | Inr loc \<Rightarrow>
          place_markers rest
            (cluster @ [\<lparr>location = loc, popup = popup_text r, tooltip = astype_str (nama r)\<rparr>])
            (count + 1))"

definition build_map :: "table \<Rightarrow> error + folium_map \<times> nat" where
  "build_map dframe =
     (case validate_location (map_center dframe) of
        Inl e \<Rightarrow> Inl e
      | Inr c \<Rightarrow>
          (let m = \<lparr>center = c, zoom_start = 8, base_layers = [], controls = [], markers = []\<rparr>;
               m = add_base_layers m;
               m = add_control ''MiniMap'' m;
               m = add_control ''Fullscreen'' m
           in case place_markers (dropna_lat_lon dframe) [] 0 of
                Inl e \<Rightarrow> Inl e
              | Inr (cluster, count) \<Rightarrow>
                  (let m = m\<lparr>markers := cluster\<rparr>;
                       m = add_control ''LayerControl'' m;
                       m = add_control ''Legend'' m
                   in Inr (m, count))))"

subsection \<open>The route (app.py, lines 164 to 195)\<close>

text \<open>
  The template is not among the sources: the response is the template's name with the
  arguments \<open>render_template\<close> receives.
\<close>

record template_context =
  map_html :: folium_map
  min_pop :: string
  keyword :: string
  names :: "string list"
  selected_name :: string
  result_count :: nat

text \<open>
  The handler reads the module's globals and returns them with its answer, so that a
  change to them would show.
\<close>

definition home ::
  "regex_engine \<Rightarrow> int_parser \<Rightarrow> globals \<Rightarrow> request
     \<Rightarrow> (error + template_context) \<times> globals" where
  "home re_compile int_of g req =
     (case home_filters re_compile int_of (df g) req of
        Inl e \<Rightarrow> (Inl e, g)
      | Inr dff \<Rightarrow>
          (case build_map dff of
             Inl e \<Rightarrow> (Inl e, g)
           | Inr (m, n) \<Rightarrow>
               (Inr \<lparr>map_html = m,
                     min_pop = form_get (form req) ''min_pop'' '''',
                     keyword = form_get (form req) ''keyword'' '''',
                     names = NAMES g,
                     selected_name = form_get (form req) ''name'' '''',
                     result_count = n\<rparr>, g)))"

text \<open>The server: one call of the handler per request, each on the globals the last left.\<close>

fun serve ::
  "regex_engine \<Rightarrow> int_parser \<Rightarrow> globals \<Rightarrow> request list
     \<Rightarrow> (error + template_context) list \<times> globals" where
  "serve re_compile int_of g [] = ([], g)"
| "serve re_compile int_of g (req # reqs) =
     (let (resp, g') = home re_compile int_of g req;
          (resps, g'') = serve re_compile int_of g' reqs
      in (resp # resps, g''))"

subsection \<open>A fragment of the regular-expression compiler\<close>

text \<open>
  \<open>re_lite\<close> is \<open>re.compile(pattern, re.IGNORECASE)\<close> followed by \<open>search\<close>, for the
  patterns built from ordinary characters, the dot and parentheses: an ordinary character
  matches itself in either case, a dot matches any character but a line feed, a group of
  such items matches what its items match in a row, and a parenthesis without its partner
  raises \<open>re.error\<close>. A pattern that uses any other special character is outside the
  fragment, which \<open>re_lite\<close> says with \<open>NotModelled\<close> (not an exception of Python's).
  It stands for the compiler in the closed examples below; every general theorem holds
  for any compiler.
\<close>

datatype atom = Lit char | Dot

definition unmodelled :: "char \<Rightarrow> bool" where
  "unmodelled c = (c \<in> set ''^$*+?{}[]|'' \<or> c = CHR 0x5C)"

fun parse_atoms :: "string \<Rightarrow> nat \<Rightarrow> error + atom list" where
  "parse_atoms [] depth = (if depth = 0 then Inr [] else Inl ReError)"
| "parse_atoms (c # cs) depth =
     (if c = CHR ''('' then parse_atoms cs (Suc depth)
      else if c = CHR '')'' then
        (if depth = 0 then Inl ReError else parse_atoms cs (depth - 1))
      else
        (case parse_atoms cs depth of
           Inl e \<Rightarrow> Inl e
         | Inr items \<Rightarrow> Inr ((if c = CHR ''.'' then Dot else Lit c) # items)))"

fun atom_matches :: "atom \<Rightarrow> char \<Rightarrow> bool" where
  "atom_matches Dot c = (c \<noteq> CHR 0x0A)"
| "atom_matches (Lit a) c = (ascii_lower a = ascii_lower c)"

fun match_here :: "atom list \<Rightarrow> string \<Rightarrow> bool" where
  "match_here [] s = True"
| "match_here (a # items) [] = False"
| "match_here (a # items) (c # cs) = (atom_matches a c \<and> match_here items cs)"

fun search :: "atom list \<Rightarrow> string \<Rightarrow> bool" where
  "search items [] = match_here items []"
| "search items (c # cs) = (match_here items (c # cs) \<or> search items cs)"

definition re_lite :: regex_engine where
  "re_lite pat =
     (if list_ex unmodelled pat then Inl NotModelled
      else (case parse_atoms pat 0 of
              Inl e \<Rightarrow> Inl e
            | Inr items \<Rightarrow> Inr (search items)))"

text \<open>A character with no special meaning in a pattern.\<close>

definition plain_char :: "char \<Rightarrow> bool" where
  "plain_char c =
     (\<not> unmodelled c \<and> c \<noteq> CHR ''('' \<and> c \<noteq> CHR '')'' \<and> c \<noteq> CHR ''.'')"

subsection \<open>The specification's reading of the filters\<close>

text \<open>
  The keyword filter as the specification words it: the name contains the keyword as a
  piece of consecutive characters, letter case ignored.
\<close>

fun starts_with :: "string \<Rightarrow> string \<Rightarrow> bool" where
  "starts_with [] s = True"
| "starts_with (k # ks) [] = False"
| "starts_with (k # ks) (c # cs) = (k = c \<and> starts_with ks cs)"

fun is_substring :: "string \<Rightarrow> string \<Rightarrow> bool" where
  "is_substring ks [] = starts_with ks []"
| "is_substring ks (c # cs) = (starts_with ks (c # cs) \<or> is_substring ks cs)"

definition spec_contains_nocase :: "string \<Rightarrow> string \<Rightarrow> bool" where
  "spec_contains_nocase kw s = is_substring (casefold kw) (casefold s)"

text \<open>
  The three filters as predicates on a row, read off the masks of lines 175, 180 and 183;
  \<open>found\<close> is the search predicate of the compiled keyword.
\<close>

definition min_pop_pred :: "int_parser \<Rightarrow> string \<Rightarrow> row \<Rightarrow> bool" where
  "min_pop_pred int_of mp r =
     (case (if mp = [] then None else int_of mp) of
        None \<Rightarrow> True
      | Some n \<Rightarrow> ge_mask (populasi r) n)"

definition keyword_pred :: "string \<Rightarrow> (string \<Rightarrow> bool) \<Rightarrow> row \<Rightarrow> bool" where
  "keyword_pred kw found r = (kw = [] \<or> found (astype_str (nama r)))"

definition name_pred :: "string \<Rightarrow> row \<Rightarrow> bool" where
  "name_pred sel r = (sel = [] \<or> casefold (astype_str (nama r)) = casefold sel)"

text \<open>One filter step after another; an exception of the first ends the run.\<close>

definition and_then ::
  "(table \<Rightarrow> error + table) \<Rightarrow> (table \<Rightarrow> error + table) \<Rightarrow> table \<Rightarrow> error + table" where
  "and_then f g t = (case f t of Inl e \<Rightarrow> Inl e | Inr t' \<Rightarrow> g t')"

definition step_min_pop :: "int_parser \<Rightarrow> string \<Rightarrow> table \<Rightarrow> error + table" where
  "step_min_pop int_of mp t = filter_min_pop int_of mp t"

definition step_name :: "string \<Rightarrow> table \<Rightarrow> error + table" where
  "step_name sel t = Inr (filter_name sel t)"

text \<open>The mean of the values present in a column, as the specification words it.\<close>

definition mean_of_present :: "rat option list \<Rightarrow> rat" where
  "mean_of_present xs =
     sum_list (List.map_filter id xs) / of_nat (length (List.map_filter id xs))"

subsection \<open>Example data\<close>

definition place :: "string \<Rightarrow> rat \<Rightarrow> rat \<Rightarrow> rat \<Rightarrow> row" where
  "place n a b p = \<lparr>nama = Some n, lat = Some a, lon = Some b, populasi = Some p\<rparr>"

definition bandung :: row where
  "bandung = place ''Bandung'' (- 69 / 10) (1076 / 10) 2500000"

definition bandung_caps :: row where
  "bandung_caps = place ''BANDUNG'' (- 691 / 100) (1076 / 10) 1000"

definition bogor :: row where
  "bogor = place ''Bogor'' (- 66 / 10) (1068 / 10) 1100000"

definition cimahi :: row where
  "cimahi = place ''CIMAHI'' (- 689 / 100) (10754 / 100) (1137999 / 2)"

text \<open>A place without coordinates and one without a population figure.\<close>

definition no_coords :: row where
  "no_coords = \<lparr>nama = Some ''Lembang'', lat = None, lon = Some (1076 / 10), populasi = Some 200000\<rparr>"

definition no_pop :: row where
  "no_pop = \<lparr>nama = Some ''abc'', lat = Some (- 7), lon = Some 107, populasi = None\<rparr>"

definition example_table :: table where
  "example_table = [bandung, bogor, cimahi, no_coords, no_pop]"

text \<open>The globals the module body leaves for a table.\<close>

definition globals_of :: "table \<Rightarrow> globals" where
  "globals_of t = \<lparr>df = t, NAMES = dropdown_names t\<rparr>"

text \<open>A place whose name is missing.\<close>

definition unnamed :: row where
  "unnamed = \<lparr>nama = None, lat = Some (- 6), lon = Some 106, populasi = Some 10\<rparr>"

text \<open>A cell parser for the examples: it reads whole numbers only.\<close>

definition whole_number :: "string \<Rightarrow> rat option" where
  "whole_number s = map_option of_int (py_int s)"

text \<open>A whole number beyond the range of a float: a one followed by 309 zeros.\<close>

definition huge_number :: string where
  "huge_number = CHR ''1'' # replicate 309 (CHR ''0'')"

definition post :: "(string \<times> string) list \<Rightarrow> request" where
  "post kvs = \<lparr>meth = POST, form = map_of kvs\<rparr>"

section \<open>Properties\<close>

subsection \<open>The marker loop and the map\<close>

lemma place_markers_run:
  "list_all (\<lambda>r. lat r \<noteq> None \<and> lon r \<noteq> None) rows \<Longrightarrow>
   \<exists>ms. place_markers rows cluster count = Inr (cluster @ ms, count + length rows)
      \<and> length ms = length rows
      \<and> map (\<lambda>k. (Some (fst (location k)), Some (snd (location k)))) ms
          = map (\<lambda>r. (lat r, lon r)) rows
      \<and> map popup ms = map popup_text rows
      \<and> map tooltip ms = map (\<lambda>r. astype_str (nama r)) rows"
proof (induction rows arbitrary: cluster count)
  case Nil
  then show ?case by simp
next
  case (Cons r rows)
  from Cons.prems obtain a b where ab: "lat r = Some a" "lon r = Some b"
    by auto
  from Cons.prems have rest: "list_all (\<lambda>r. lat r \<noteq> None \<and> lon r \<noteq> None) rows"
    by simp
  let ?mk = "\<lparr>location = (a, b), popup = popup_text r, tooltip = astype_str (nama r)\<rparr>"
  from Cons.IH [OF rest, of "cluster @ [?mk]" "count + 1"]
  obtain ms where ms:
      "place_markers rows (cluster @ [?mk]) (count + 1)
        = Inr ((cluster @ [?mk]) @ ms, count + 1 + length rows)"
      "length ms = length rows"
      "map (\<lambda>k. (Some (fst (location k)), Some (snd (location k)))) ms
        = map (\<lambda>r. (lat r, lon r)) rows"
      "map popup ms = map popup_text rows"
      "map tooltip ms = map (\<lambda>r. astype_str (nama r)) rows"
    by blast
  show ?case
    apply (rule exI [of _ "?mk # ms"])
    using ms ab by (simp add: validate_location_def)
qed

lemma dropna_has_coords:
  "list_all (\<lambda>r. lat r \<noteq> None \<and> lon r \<noteq> None) (dropna_lat_lon dframe)"
  by (simp add: dropna_lat_lon_def list_all_iff)

lemma series_mean_Some:
  assumes "notna_any xs"
  shows "series_mean xs = Some (mean_of_present xs)"
proof -
  from assms obtain x where "Some x \<in> set xs"
    by (auto simp: notna_any_def list_ex_iff)
  then have "List.map_filter id xs \<noteq> []"
    by (auto simp: map_filter_def filter_empty_conv)
  then show ?thesis by (simp add: series_mean_def mean_of_present_def Let_def)
qed

lemma map_center_valid: "\<exists>c. validate_location (map_center dframe) = Inr c"
proof (cases "length dframe > 0 \<and> notna_any (map lat dframe) \<and> notna_any (map lon dframe)")
  case True
  then show ?thesis
    by (simp add: map_center_def validate_location_def series_mean_Some)
next
  case False
  then show ?thesis by (auto simp add: map_center_def validate_location_def)
qed

lemma build_map_result:
  "\<exists>m. build_map dframe = Inr (m, length (dropna_lat_lon dframe))
     \<and> validate_location (map_center dframe) = Inr (center m)
     \<and> length (markers m) = length (dropna_lat_lon dframe)
     \<and> map (\<lambda>k. (Some (fst (location k)), Some (snd (location k)))) (markers m)
         = map (\<lambda>r. (lat r, lon r)) (dropna_lat_lon dframe)
     \<and> map popup (markers m) = map popup_text (dropna_lat_lon dframe)
     \<and> map tooltip (markers m) = map (\<lambda>r. astype_str (nama r)) (dropna_lat_lon dframe)"
proof -
  obtain c where c: "validate_location (map_center dframe) = Inr c"
    using map_center_valid by blast
  from place_markers_run [OF dropna_has_coords, of dframe "[]" 0]
  obtain ms where ms:
      "place_markers (dropna_lat_lon dframe) [] 0 = Inr (ms, length (dropna_lat_lon dframe))"
      "length ms = length (dropna_lat_lon dframe)"
      "map (\<lambda>k. (Some (fst (location k)), Some (snd (location k)))) ms
        = map (\<lambda>r. (lat r, lon r)) (dropna_lat_lon dframe)"
      "map popup ms = map popup_text (dropna_lat_lon dframe)"
      "map tooltip ms = map (\<lambda>r. astype_str (nama r)) (dropna_lat_lon dframe)"
    by auto
  show ?thesis using c ms
    by (simp add: build_map_def Let_def add_control_def add_base_layers_def)
qed

lemma length_filter_all: "(length (filter P xs) = length xs) = list_all P xs"
proof (induction xs)
  case Nil
  show ?case by simp
next
  case (Cons x xs)
  show ?case
    using Cons length_filter_le [of P xs] by (auto simp del: length_filter_le)
qed

lemma home_globals: "snd (home re_compile int_of g req) = g"
  by (simp add: home_def split: sum.splits prod.splits)

subsection \<open>C1: markers and the result count\<close>

text \<open>
  Claim C1 says that \<open>build_map\<close> places one marker per row of the filtered table and
  that \<open>result_count\<close> is the number of rows of the filtered table. The loop runs over
  \<open>dframe.dropna(subset=["lat", "lon"])\<close>, so a row without a coordinate gets no marker
  and is not counted: with the one-row table \<open>[no_coords]\<close> and no filter, the filtered
  table has one row, the count is 0 and the cluster is empty.
\<close>

theorem home_count_counterexample:
  "home_filters re_lite py_int [no_coords] (post []) = Inr [no_coords]
   \<and> map_sum id result_count (fst (home re_lite py_int (globals_of [no_coords]) (post []))) = Inr 0
   \<and> map_sum id (\<lambda>c. markers (map_html c))
        (fst (home re_lite py_int (globals_of [no_coords]) (post []))) = Inr []"
  by code_simp

text \<open>
  C1 as amended: whenever the filters yield a table \<open>dff\<close>, the handler answers a
  template context; the cluster holds one marker per row of \<open>dff\<close> that has both a
  latitude and a longitude, in the table's order, at that row's coordinates and under
  its name; \<open>result_count\<close> is the number of those rows; and it is the number of rows
  of \<open>dff\<close> exactly when no row of \<open>dff\<close> lacks a coordinate.
\<close>

theorem home_markers_and_count:
  assumes "home_filters re_compile int_of (df g) req = Inr dff"
  shows "\<exists>c. fst (home re_compile int_of g req) = Inr c
     \<and> result_count c = length (dropna_lat_lon dff)
     \<and> length (markers (map_html c)) = result_count c
     \<and> map (\<lambda>k. (Some (fst (location k)), Some (snd (location k)))) (markers (map_html c))
         = map (\<lambda>r. (lat r, lon r)) (dropna_lat_lon dff)
     \<and> map tooltip (markers (map_html c)) = map (\<lambda>r. astype_str (nama r)) (dropna_lat_lon dff)
     \<and> (result_count c = length dff) = list_all (\<lambda>r. lat r \<noteq> None \<and> lon r \<noteq> None) dff"
proof -
  from build_map_result [of dff] obtain m where m:
    "build_map dff = Inr (m, length (dropna_lat_lon dff))"
    "length (markers m) = length (dropna_lat_lon dff)"
    "map (\<lambda>k. (Some (fst (location k)), Some (snd (location k)))) (markers m)
         = map (\<lambda>r. (lat r, lon r)) (dropna_lat_lon dff)"
    "map tooltip (markers m) = map (\<lambda>r. astype_str (nama r)) (dropna_lat_lon dff)"
    by blast
  have "(length (dropna_lat_lon dff) = length dff)
          = list_all (\<lambda>r. lat r \<noteq> None \<and> lon r \<noteq> None) dff"
    unfolding dropna_lat_lon_def by (rule length_filter_all)
  with m assms show ?thesis
    by (simp add: home_def)
qed

theorem home_markers_and_count_witness:
  "home_filters re_lite py_int (df (globals_of example_table)) (post []) = Inr example_table
   \<and> map_sum id result_count (fst (home re_lite py_int (globals_of example_table) (post []))) = Inr 4
   \<and> length example_table = 5"
proof -
  have h: "home_filters re_lite py_int (df (globals_of example_table)) (post []) = Inr example_table"
    by code_simp
  have n: "length (dropna_lat_lon example_table) = 4"
    by code_simp
  from home_markers_and_count [OF h] n
  have "map_sum id result_count (fst (home re_lite py_int (globals_of example_table) (post []))) = Inr 4"
    by auto
  moreover have "length example_table = 5" by code_simp
  ultimately show ?thesis using h by simp
qed

subsection \<open>C6: the minimum-population filter\<close>

text \<open>
  When \<open>min_pop\<close> is not empty, \<open>int\<close> reads it as \<open>n\<close> and \<open>n\<close> is within the range
  of a float, the filter keeps exactly the rows whose \<open>populasi\<close> is a number that is
  at least \<open>n\<close>, in their order; no row with a missing \<open>populasi\<close> is left.
\<close>

theorem min_pop_filter_rows:
  assumes "mp \<noteq> []" and "int_of mp = Some n" and "fits_float n"
  shows "filter_min_pop int_of mp dff
           = Inr (filter (\<lambda>r. case populasi r of None \<Rightarrow> False
                               | Some p \<Rightarrow> of_int n \<le> p) dff)"
  using assms by (simp add: filter_min_pop_def ge_mask_def)

theorem min_pop_filter_rows_witness:
  "''1_200_000'' \<noteq> [] \<and> py_int ''1_200_000'' = Some 1200000 \<and> fits_float 1200000
   \<and> filter_min_pop py_int ''1_200_000'' example_table = Inr [bandung]"
proof -
  have p: "py_int ''1_200_000'' = Some 1200000"
    by (simp add: py_int_def strip_def is_space_def py_unsigned_def is_digit_def digit_val_def
        max_str_digits_def)
  have ne: "''1_200_000'' \<noteq> []" by simp
  have ff: "fits_float 1200000" by (simp add: fits_float_def)
  have "filter (\<lambda>r. case populasi r of None \<Rightarrow> False | Some p \<Rightarrow> of_int 1200000 \<le> p)
          example_table = [bandung]"
    by code_simp
  with min_pop_filter_rows [where int_of = py_int and dff = example_table, OF ne p ff] p ff
  show ?thesis by simp
qed

text \<open>What \<open>int\<close> reads in a one followed by 309 zeros.\<close>

lemma strip_no_space:
  assumes "list_all (\<lambda>c. \<not> is_space c) s"
  shows "strip s = s"
proof -
  have keep: "dropWhile is_space u = u" if "list_all (\<lambda>c. \<not> is_space c) u" for u
    using that by (cases u) simp_all
  from assms have "list_all (\<lambda>c. \<not> is_space c) (rev s)"
    by (simp add: list_all_iff)
  with assms show ?thesis
    by (simp add: strip_def keep)
qed

lemma py_digits_zeros: "py_digits (replicate k (CHR ''0'')) acc = Some (acc * 10 ^ k)"
  by (induction k arbitrary: acc) (simp_all add: is_digit_def digit_val_def)

lemma py_int_huge_number: "py_int huge_number = Some (10 ^ 309)"
proof -
  have d0: "is_digit (CHR ''0'')" and d1: "is_digit (CHR ''1'')"
    and s0: "\<not> is_space (CHR ''0'')" and s1: "\<not> is_space (CHR ''1'')"
    by (simp_all add: is_digit_def is_space_def)
  have "list_all (\<lambda>c. \<not> is_space c) huge_number"
    using s0 s1 by (simp add: huge_number_def list_all_iff)
  then have st: "strip huge_number = huge_number"
    by (rule strip_no_space)
  have "filter is_digit huge_number = huge_number"
    using d0 d1 by (simp add: huge_number_def)
  then have len: "length (filter is_digit huge_number) \<le> max_str_digits"
    by (simp add: huge_number_def max_str_digits_def)
  have "py_digits huge_number 0 = Some (10 ^ 309)"
    using d1 py_digits_zeros [of 309 1]
    by (simp add: huge_number_def digit_val_def)
  with len d1 have "py_unsigned huge_number = Some (10 ^ 309)"
    by (simp add: py_unsigned_def huge_number_def)
  then show ?thesis
    unfolding py_int_def st by (simp add: huge_number_def)
qed

text \<open>
  Claim C6 says that, when \<open>min_pop\<close> is not empty and reads as an integer \<open>n\<close>, the
  filter keeps exactly the rows whose \<open>populasi\<close> is at least \<open>n\<close>. For a one followed
  by 309 zeros \<open>int\<close> returns the integer, the comparison of line 175 raises
  OverflowError, which \<open>except ValueError\<close> does not catch, and the handler raises
  instead of answering with the rows that are at least \<open>n\<close>.
\<close>

theorem min_pop_overflow_raises:
  "py_int huge_number = Some (10 ^ 309)
   \<and> filter_min_pop py_int huge_number example_table = Inl OverflowError
   \<and> fst (home re_lite py_int (globals_of example_table) (post [(''min_pop'', huge_number)]))
       = Inl OverflowError"
proof -
  have big: "\<not> fits_float (10 ^ 309)"
    by (simp add: fits_float_def)
  have ne: "huge_number \<noteq> []"
    by (simp add: huge_number_def)
  from big ne have f: "filter_min_pop py_int huge_number t = Inl OverflowError" for t
    by (simp add: filter_min_pop_def py_int_huge_number)
  have "form_get (form (post [(''min_pop'', huge_number)])) ''min_pop'' [] = huge_number"
    by (simp add: form_get_def post_def)
  then have "home_filters re_lite py_int t (post [(''min_pop'', huge_number)]) = Inl OverflowError"
    for t
    by (simp add: home_filters_def f)
  then show ?thesis
    using f [of example_table] py_int_huge_number by (simp add: home_def)
qed

subsection \<open>C9: the centre of the map\<close>

text \<open>
  Claim C9: \<open>build_map\<close> returns a map for every table. If the table is empty, or every
  \<open>lat\<close> is missing, or every \<open>lon\<close> is missing, the map is centred at the fallback
  \<open>(-6.5, 107.0)\<close>; otherwise at the mean of the \<open>lat\<close> values present and the mean of
  the \<open>lon\<close> values present.
\<close>

theorem build_map_center:
  "\<exists>m n. build_map dframe = Inr (m, n)
     \<and> center m =
        (if dframe = [] \<or> list_all (\<lambda>r. lat r = None) dframe
            \<or> list_all (\<lambda>r. lon r = None) dframe
         then (- 13 / 2, 107)
         else (mean_of_present (map lat dframe), mean_of_present (map lon dframe)))"
proof -
  from build_map_result [of dframe] obtain m where m:
    "build_map dframe = Inr (m, length (dropna_lat_lon dframe))"
    "validate_location (map_center dframe) = Inr (center m)"
    by blast
  have na: "notna_any (map f dframe) = (\<not> list_all (\<lambda>r. f r = None) dframe)"
    for f :: "row \<Rightarrow> rat option"
    by (auto simp: notna_any_def list_ex_iff list_all_iff)
  have "validate_location (map_center dframe) = Inr
        (if dframe = [] \<or> list_all (\<lambda>r. lat r = None) dframe
            \<or> list_all (\<lambda>r. lon r = None) dframe
         then (- 13 / 2, 107)
         else (mean_of_present (map lat dframe), mean_of_present (map lon dframe)))"
    by (auto simp add: map_center_def validate_location_def series_mean_Some na)
  with m show ?thesis by auto
qed

subsection \<open>C10: requests leave the globals alone\<close>

text \<open>
  Claim C10: a request changes neither the table \<open>df\<close> nor the list \<open>NAMES\<close>. After any
  sequence of requests the globals are what they were, and every request of the sequence
  is answered as it would be on the globals as loaded, whatever the earlier requests
  filtered.
\<close>

theorem requests_leave_globals:
  "snd (serve re_compile int_of g reqs) = g
   \<and> fst (serve re_compile int_of g reqs) = map (\<lambda>req. fst (home re_compile int_of g req)) reqs"
proof (induction reqs)
  case Nil
  show ?case by simp
next
  case (Cons req reqs)
  then show ?case
    by (simp add: split_beta home_globals)
qed

subsection \<open>C2: the exact-name filter\<close>

text \<open>
  Claim C2 says that the dropdown filter keeps exactly the rows whose \<open>nama\<close> is exactly
  the selected name. Line 183 case-folds both sides first, so the selection \<open>Bandung\<close>
  keeps the row named \<open>BANDUNG\<close> as well, whose name is not the selected text.
\<close>

theorem name_filter_counterexample:
  "filter_name ''Bandung'' [bandung, bandung_caps, bogor] = [bandung, bandung_caps]
   \<and> nama bandung_caps = Some ''BANDUNG'' \<and> ''BANDUNG'' \<noteq> ''Bandung''"
  by code_simp

text \<open>
  C2 as amended: when the selected name is not empty, the rows with a name that the
  filter keeps are exactly the rows of the table whose name equals the selected name
  after both are case-folded, in their order.
\<close>

theorem name_filter_casefold:
  assumes "sel \<noteq> []"
  shows "filter (\<lambda>r. nama r \<noteq> None) (filter_name sel dff)
           = filter (\<lambda>r. case nama r of None \<Rightarrow> False
                         | Some s \<Rightarrow> casefold s = casefold sel) dff"
proof -
  have "filter (\<lambda>r. nama r \<noteq> None) (filter_name sel dff)
          = filter (\<lambda>r. casefold (astype_str (nama r)) = casefold sel \<and> nama r \<noteq> None) dff"
    using assms by (simp add: filter_name_def)
  also have "\<dots> = filter (\<lambda>r. case nama r of None \<Rightarrow> False
                         | Some s \<Rightarrow> casefold s = casefold sel) dff"
    by (rule filter_cong) (auto simp: astype_str_def split: option.splits)
  finally show ?thesis .
qed

theorem name_filter_casefold_witness:
  "''cimahi'' \<noteq> []
   \<and> filter (\<lambda>r. nama r \<noteq> None) (filter_name ''cimahi'' example_table) = [cimahi]"
proof -
  have ne: "''cimahi'' \<noteq> []" by simp
  have "filter (\<lambda>r. case nama r of None \<Rightarrow> False
                   | Some s \<Rightarrow> casefold s = casefold ''cimahi'') example_table = [cimahi]"
    by code_simp
  with name_filter_casefold [OF ne, of example_table] show ?thesis by simp
qed

subsection \<open>C3: the keyword filter\<close>

text \<open>
  On a keyword without special characters the compiled pattern finds exactly the texts
  that contain the keyword, letter case ignored.
\<close>

lemma parse_atoms_plain:
  "list_all plain_char kw \<Longrightarrow>
   parse_atoms kw depth = (if depth = 0 then Inr (map Lit kw) else Inl ReError)"
  by (induction kw arbitrary: depth) (auto simp: plain_char_def)

lemma match_here_lit: "match_here (map Lit ks) s = starts_with (casefold ks) (casefold s)"
proof (induction ks arbitrary: s)
  case Nil
  show ?case by (simp add: casefold_def)
next
  case (Cons k ks)
  then show ?case by (cases s) (simp_all add: casefold_def)
qed

lemma search_lit: "search (map Lit ks) s = is_substring (casefold ks) (casefold s)"
proof (induction s)
  case Nil
  show ?case using match_here_lit [of ks "[]"] by (simp add: casefold_def)
next
  case (Cons c s)
  then show ?case using match_here_lit [of ks "c # s"] by (simp add: casefold_def)
qed

lemma keyword_filter_plain:
  assumes "kw \<noteq> []" and "list_all plain_char kw"
  shows "filter_keyword re_lite kw dff
           = Inr (filter (\<lambda>r. spec_contains_nocase kw (astype_str (nama r))) dff)"
proof -
  from assms(2) have "\<not> list_ex unmodelled kw"
    by (auto simp: list_all_iff list_ex_iff plain_char_def)
  then have "re_lite kw = Inr (search (map Lit kw))"
    using parse_atoms_plain [OF assms(2), of 0] by (simp add: re_lite_def)
  with assms(1) show ?thesis
    by (simp add: filter_keyword_def search_lit spec_contains_nocase_def)
qed

text \<open>
  A missing name went through \<open>astype(str)\<close> before the search and is searched as the
  text \<open>nan\<close>.
\<close>

lemma keyword_nan_keeps_unnamed:
  "filter_keyword re_lite ''nan'' [unnamed] = Inr [unnamed] \<and> nama unnamed = None"
  by code_simp

text \<open>
  Claim C3 says that, for every keyword, the filter keeps exactly the rows whose name
  contains the keyword as a substring, letter case ignored. The code searches for the
  keyword as a regular expression: the keyword \<open>.\<close> keeps the row named \<open>abc\<close>, which
  does not contain a dot, and the keyword \<open>(\<close> yields no table at all but the
  exception of the pattern compiler.
\<close>

theorem keyword_filter_is_pattern_search:
  "filter_keyword re_lite ''.'' [no_pop] = Inr [no_pop]
   \<and> nama no_pop = Some ''abc''
   \<and> \<not> spec_contains_nocase ''.'' ''abc''
   \<and> filter_keyword re_lite ''('' [no_pop] = Inl ReError"
  by code_simp

subsection \<open>C4: the handler and exceptions\<close>

text \<open>
  Claim C4 says that the handler returns rendered HTML for every request and never
  raises. A form whose keyword is \<open>(\<close> makes it raise the pattern compiler's exception,
  which nothing catches.
\<close>

theorem home_raises_on_keyword:
  "fst (home re_lite py_int (globals_of example_table) (post [(''keyword'', ''('')])) = Inl ReError"
  by code_simp

subsection \<open>C5: a minimum population that is not a number\<close>

text \<open>
  Claim C5 says that, when \<open>min_pop\<close> is not empty and \<open>int\<close> cannot read it, the
  response equals the one produced when no minimum population is given. The filter is
  skipped indeed, but the handler passes the text of the field on to the template, so the
  two responses differ in that argument.
\<close>

theorem unparsed_min_pop_counterexample:
  "fst (home re_lite py_int (globals_of [no_pop]) (post [(''min_pop'', ''abc'')]))
     \<noteq> fst (home re_lite py_int (globals_of [no_pop]) (post []))"
  by code_simp

text \<open>
  C5 as amended: when \<open>min_pop\<close> is not empty and \<open>int\<close> raises ValueError on it, the parse
  failure is absorbed and the minimum-population filter is skipped: the filtered table is
  the one of a request with the same keyword and name whose \<open>min_pop\<close> is empty or
  absent, an exception of the keyword filter included, and the response is that
  request's response with the \<open>min_pop\<close> argument of the template set to the submitted
  text.
\<close>

theorem unparsed_min_pop_skipped:
  assumes "form_get (form req) ''min_pop'' [] = mp" and "mp \<noteq> []" and "int_of mp = None"
    and "form_get (form req0) ''min_pop'' [] = []"
    and "form_get (form req0) ''keyword'' [] = form_get (form req) ''keyword'' []"
    and "form_get (form req0) ''name'' [] = form_get (form req) ''name'' []"
  shows "home_filters re_compile int_of t req = home_filters re_compile int_of t req0
     \<and> fst (home re_compile int_of g req)
         = map_sum id (\<lambda>c. c\<lparr>min_pop := mp\<rparr>) (fst (home re_compile int_of g req0))"
proof -
  have f: "home_filters re_compile int_of t req = home_filters re_compile int_of t req0" for t
    using assms by (simp add: home_filters_def filter_min_pop_def)
  show ?thesis
    using assms f [of "df g"] f [of t]
    by (simp add: home_def split: sum.splits prod.splits)
qed

theorem unparsed_min_pop_skipped_witness:
  "py_int ''abc'' = None
   \<and> home_filters re_lite py_int example_table (post [(''min_pop'', ''abc''), (''keyword'', ''bo'')])
       = Inr [bogor]
   \<and> home_filters re_lite py_int example_table (post [(''keyword'', ''bo'')]) = Inr [bogor]"
proof -
  let ?req = "post [(''min_pop'', ''abc''), (''keyword'', ''bo'')]"
  let ?plain = "post [(''keyword'', ''bo'')]"
  have a1: "form_get (form ?req) ''min_pop'' [] = ''abc''"
    by (simp add: form_get_def post_def)
  have a2: "''abc'' \<noteq> []" by simp
  have a3: "py_int ''abc'' = None"
    by code_simp
  have a4: "form_get (form ?plain) ''min_pop'' [] = []"
    by (simp add: form_get_def post_def)
  have a5: "form_get (form ?plain) ''keyword'' [] = form_get (form ?req) ''keyword'' []"
    by (simp add: form_get_def post_def)
  have a6: "form_get (form ?plain) ''name'' [] = form_get (form ?req) ''name'' []"
    by (simp add: form_get_def post_def)
  have r0: "home_filters re_lite py_int example_table ?plain = Inr [bogor]" by code_simp
  from unparsed_min_pop_skipped
    [where int_of = py_int and re_compile = re_lite and t = example_table,
      OF a1 a2 a3 a4 a5 a6]
  have "home_filters re_lite py_int example_table ?req = home_filters re_lite py_int example_table ?plain"
    by simp
  with r0 a3 show ?thesis by simp
qed

subsection \<open>C7: the filters as a conjunction of predicates\<close>

lemma step_min_pop_pred:
  assumes "mp = [] \<or> int_of mp = None \<or> (\<exists>n. int_of mp = Some n \<and> fits_float n)"
  shows "step_min_pop int_of mp t = Inr (filter (min_pop_pred int_of mp) t)"
  using assms
  by (cases "int_of mp")
    (auto simp add: step_min_pop_def filter_min_pop_def min_pop_pred_def [abs_def])

lemma step_name_pred: "step_name sel t = Inr (filter (name_pred sel) t)"
  by (simp add: step_name_def filter_name_def name_pred_def [abs_def])

lemma filter_keyword_pred:
  "kw = [] \<or> re_compile kw = Inr found \<Longrightarrow>
   filter_keyword re_compile kw t = Inr (filter (keyword_pred kw found) t)"
  by (auto simp add: filter_keyword_def keyword_pred_def [abs_def])

lemma home_filters_steps:
  "home_filters re_compile int_of t req =
     and_then (step_min_pop int_of (form_get (form req) ''min_pop'' []))
       (and_then (filter_keyword re_compile (form_get (form req) ''keyword'' []))
          (step_name (form_get (form req) ''name'' []))) t"
  by (simp add: home_filters_def and_then_def step_min_pop_def step_name_def Let_def
      split: sum.splits)

text \<open>
  Claim C7 says that each filter is applied if and only if its parameter is not empty.
  The minimum-population filter is applied only if its parameter also reads as a whole
  number: with \<open>min_pop\<close> set to \<open>abc\<close> the parameter is not empty, and a row without a
  population figure, which that filter never keeps, is still in the result.
\<close>

theorem filters_any_order_counterexample:
  "form_get (form (post [(''min_pop'', ''abc'')])) ''min_pop'' [] \<noteq> []
   \<and> home_filters re_lite py_int [no_pop] (post [(''min_pop'', ''abc'')]) = Inr [no_pop]
   \<and> populasi no_pop = None"
  by code_simp

text \<open>
  C7 as amended: the minimum-population predicate is active when its parameter is not
  empty and \<open>int\<close> reads it as a whole number, the keyword and the name predicate when
  their parameter is not empty. Whenever the keyword is empty or compiles, and the
  minimum population, where \<open>int\<close> reads one, is within the range of a float, the
  filtered table consists of the rows of the table, in their order, that satisfy every
  active predicate, and the three filter steps yield that same table in each of their
  six orders.
\<close>

theorem filters_conjunction_any_order:
  assumes "form_get (form req) ''min_pop'' [] = mp"
    and "form_get (form req) ''keyword'' [] = kw"
    and "form_get (form req) ''name'' [] = sel"
    and "kw = [] \<or> re_compile kw = Inr found"
    and "mp = [] \<or> int_of mp = None \<or> (\<exists>n. int_of mp = Some n \<and> fits_float n)"
  shows "let keep = (\<lambda>r. min_pop_pred int_of mp r \<and> keyword_pred kw found r
                        \<and> name_pred sel r);
             a = step_min_pop int_of mp; b = filter_keyword re_compile kw; c = step_name sel
         in home_filters re_compile int_of t req = Inr (filter keep t)
          \<and> and_then a (and_then b c) t = Inr (filter keep t)
          \<and> and_then a (and_then c b) t = Inr (filter keep t)
          \<and> and_then b (and_then a c) t = Inr (filter keep t)
          \<and> and_then b (and_then c a) t = Inr (filter keep t)
          \<and> and_then c (and_then a b) t = Inr (filter keep t)
          \<and> and_then c (and_then b a) t = Inr (filter keep t)"
proof -
  have kwp: "filter_keyword re_compile kw u = Inr (filter (keyword_pred kw found) u)" for u
    using assms(4) by (rule filter_keyword_pred)
  have mpp: "step_min_pop int_of mp u = Inr (filter (min_pop_pred int_of mp) u)" for u
    using assms(5) by (rule step_min_pop_pred)
  note steps = mpp step_name_pred kwp
  show ?thesis
    unfolding Let_def home_filters_steps assms(1,2,3)
    by (simp add: and_then_def steps conj_ac cong: conj_cong)
qed

theorem filters_conjunction_any_order_witness:
  "re_lite ''b'' = Inr (search [Lit CHR ''b''])
   \<and> py_int ''1500'' = Some 1500 \<and> fits_float 1500
   \<and> home_filters re_lite py_int example_table
        (post [(''min_pop'', ''1500''), (''keyword'', ''b''), (''name'', ''bogor'')]) = Inr [bogor]
   \<and> and_then (step_name ''bogor'')
        (and_then (filter_keyword re_lite ''b'') (step_min_pop py_int ''1500'')) example_table
       = Inr [bogor]"
proof -
  let ?rq = "post [(''min_pop'', ''1500''), (''keyword'', ''b''), (''name'', ''bogor'')]"
  have a1: "form_get (form ?rq) ''min_pop'' [] = ''1500''"
    by (simp add: form_get_def post_def)
  have a2: "form_get (form ?rq) ''keyword'' [] = ''b''"
    by (simp add: form_get_def post_def)
  have a3: "form_get (form ?rq) ''name'' [] = ''bogor''"
    by (simp add: form_get_def post_def)
  have c: "re_lite ''b'' = Inr (search [Lit CHR ''b''])"
    by (simp add: re_lite_def unmodelled_def)
  then have a4: "''b'' = [] \<or> re_lite ''b'' = Inr (search [Lit CHR ''b''])"
    by simp
  have p: "py_int ''1500'' = Some 1500"
    by code_simp
  have ff: "fits_float 1500"
    by (simp add: fits_float_def)
  from p ff have a5: "''1500'' = [] \<or> py_int ''1500'' = None
      \<or> (\<exists>n. py_int ''1500'' = Some n \<and> fits_float n)"
    by simp
  have k: "filter (\<lambda>r. min_pop_pred py_int ''1500'' r
              \<and> keyword_pred ''b'' (search [Lit CHR ''b'']) r
              \<and> name_pred ''bogor'' r) example_table = [bogor]"
    by code_simp
  from filters_conjunction_any_order
    [where re_compile = re_lite and int_of = py_int and found = "search [Lit CHR ''b'']"
       and t = example_table, OF a1 a2 a3 a4 a5] k c p ff
  show ?thesis by (simp add: Let_def)
qed

subsection \<open>C8: loading and coercion\<close>

lemma str_lower_required:
  "str_lower ''nama'' = ''nama''" "str_lower ''lat'' = ''lat''"
  "str_lower ''lon'' = ''lon''" "str_lower ''populasi'' = ''populasi''"
  by code_simp+

lemma missing_exact:
  assumes "set required \<subseteq> set cols"
  shows "missing cols = []"
proof -
  have "c \<in> set (map str_lower cols)" if c: "c \<in> set required" for c
  proof -
    from c have low: "str_lower c = c"
      using str_lower_required by (auto simp: required_def)
    from c assms have "c \<in> set cols" by blast
    then have "str_lower c \<in> str_lower ` set cols" by (rule imageI)
    with low show ?thesis by simp
  qed
  then show ?thesis by (simp add: missing_def filter_empty_conv)
qed

text \<open>
  Claim C8: loading succeeds exactly when the four columns \<open>nama\<close>, \<open>lat\<close>, \<open>lon\<close> and
  \<open>populasi\<close> are all present under these names, and fails with ValueError or
  KeyError otherwise. On success every line becomes a row whose \<open>lat\<close>, \<open>lon\<close> and
  \<open>populasi\<close> are what the numeric parser reads in the cell, and the missing value
  where the cell is empty or the parser cannot read it; no cell makes the load fail.
\<close>

theorem load_coerces_or_fails:
  "(if set required \<subseteq> set (columns f)
    then load parse f = Inr (globals_of (map (coerce_row parse) (lines f)))
    else load parse f = Inl ValueError \<or> load parse f = Inl KeyError)
   \<and> nama (coerce_row parse cells) = cells ''nama''
   \<and> lat (coerce_row parse cells) = (case cells ''lat'' of None \<Rightarrow> None | Some s \<Rightarrow> parse s)
   \<and> lon (coerce_row parse cells) = (case cells ''lon'' of None \<Rightarrow> None | Some s \<Rightarrow> parse s)
   \<and> populasi (coerce_row parse cells)
       = (case cells ''populasi'' of None \<Rightarrow> None | Some s \<Rightarrow> parse s)"
proof -
  have "load parse f = Inr (globals_of (map (coerce_row parse) (lines f)))"
    if "set required \<subseteq> set (columns f)"
    using that missing_exact [OF that]
    by (simp add: load_def globals_of_def required_def Let_def)
  moreover have "load parse f = Inl ValueError \<or> load parse f = Inl KeyError"
    if "\<not> set required \<subseteq> set (columns f)"
    using that by (auto simp add: load_def required_def)
  ultimately show ?thesis
    by (simp add: coerce_row_def to_numeric_def)
qed

theorem load_coerces_or_fails_witness:
  "load whole_number
      \<lparr>columns = [''nama'', ''lat'', ''lon'', ''populasi''],
       lines = [[''nama'' \<mapsto> ''Garut'', ''lat'' \<mapsto> ''-7'', ''lon'' \<mapsto> ''east'',
                 ''populasi'' \<mapsto> ''n/a'']]\<rparr>
     = Inr (globals_of [\<lparr>nama = Some ''Garut'', lat = Some (- 7), lon = None, populasi = None\<rparr>])
   \<and> load whole_number \<lparr>columns = [''Nama'', ''Lat'', ''lon'', ''populasi''], lines = []\<rparr>
       = Inl KeyError
   \<and> load whole_number \<lparr>columns = [''nama'', ''lat'', ''lon''], lines = []\<rparr>
       = Inl ValueError"
proof -
  let ?f = "\<lparr>columns = [''nama'', ''lat'', ''lon'', ''populasi''],
       lines = [[''nama'' \<mapsto> ''Garut'', ''lat'' \<mapsto> ''-7'', ''lon'' \<mapsto> ''east'',
                 ''populasi'' \<mapsto> ''n/a'']]\<rparr>"
  have s: "set required \<subseteq> set (columns ?f)" by (simp add: required_def)
  have r: "map (coerce_row whole_number) (lines ?f)
        = [\<lparr>nama = Some ''Garut'', lat = Some (- 7), lon = None, populasi = None\<rparr>]"
    by (simp add: coerce_row_def to_numeric_def whole_number_def py_int_def strip_def
        is_space_def py_unsigned_def is_digit_def digit_val_def max_str_digits_def)
  have "load whole_number ?f = Inr (globals_of (map (coerce_row whole_number) (lines ?f)))"
    using load_coerces_or_fails [of ?f whole_number] s by simp
  moreover have "load whole_number \<lparr>columns = [''Nama'', ''Lat'', ''lon'', ''populasi''], lines = []\<rparr>
       = Inl KeyError"
    by code_simp
  moreover have "load whole_number \<lparr>columns = [''nama'', ''lat'', ''lon''], lines = []\<rparr>
       = Inl ValueError"
    by code_simp
  ultimately show ?thesis using r by simp
qed

end
